theory Spec2Isabelle
  imports
    Complex_Main
    "HOL-Library.Char_ord"
    "HOL-Library.List_Lexorder"
    "HOL-Library.Product_Lexorder"
begin

section \<open>Conventions of the embedding\<close>

text \<open>
  The Python sources are embedded function by function. Python \<open>int\<close> is \<^typ>\<open>int\<close>,
  a Python \<open>float\<close> is the \<^typ>\<open>real\<close> number it stands for (no NaN, no infinity);
  comparisons of floats are exact, and where the sources compare the result of a float
  subtraction or of a float \<open>sum\<close>, which round, the operation is a parameter of the
  model. A Python \<open>str\<close> is a \<^typ>\<open>string\<close> holding its
  UTF-8 bytes, so that emptiness, concatenation, containment and the lexicographic order
  of two strings are those of Python. Exceptions are values of type \<open>error\<close> on the
  left of a sum. Console output (\<open>print\<close>) of the mutating procedures is returned
  beside the new state.
\<close>

datatype error = ValueError string | IndexError

subsection \<open>Builtins used by the sources\<close>

text \<open>\<open>sep.join(parts)\<close>\<close>

fun join :: "string \<Rightarrow> string list \<Rightarrow> string" where
  "join sep [] = []"
| "join sep [x] = x"
| "join sep (x # y # ys) = x @ sep @ join sep (y # ys)"

text \<open>\<open>needle in hay\<close> on strings: \<open>needle\<close> occurs as a contiguous block.\<close>

fun str_in :: "string \<Rightarrow> string \<Rightarrow> bool" where
  "str_in needle [] = (needle = [])"
| "str_in needle (c # cs) = (take (length needle) (c # cs) = needle \<or> str_in needle cs)"

text \<open>\<open>s.lower()\<close>, on the ASCII letters.\<close>

definition lower_char :: "char \<Rightarrow> char" where
  "lower_char c =
     (case map_of (zip ''ABCDEFGHIJKLMNOPQRSTUVWXYZ'' ''abcdefghijklmnopqrstuvwxyz'') c of
        None \<Rightarrow> c
      | Some l \<Rightarrow> l)"

definition lower :: "string \<Rightarrow> string" where
  "lower s = map lower_char s"

text \<open>\<open>max(xs)\<close>: raises \<open>ValueError\<close> on an empty sequence, otherwise scans from the
  left and keeps the first largest item.\<close>

fun py_max :: "real list \<Rightarrow> error + real" where
  "py_max [] = Inl (ValueError ''max() arg is an empty sequence'')"
| "py_max (x # xs) = Inr (foldl (\<lambda>m y. if y > m then y else m) x xs)"

text \<open>
  \<open>x - y\<close> on floats is the difference rounded to a float, and \<open>sum(xs)\<close> on floats adds
  with rounding (from left to right, or with a compensation term in newer interpreters):
  the functions that compare such results take the float subtraction \<open>float_sub\<close> and
  the float sum of a non-empty list \<open>float_sum\<close> as parameters, and the theorems hold
  for every choice of them. \<open>sum\<close> of the empty sequence is \<open>0\<close>.
\<close>

definition py_sum :: "(real list \<Rightarrow> real) \<Rightarrow> real list \<Rightarrow> real" where
  "py_sum float_sum xs = (if xs = [] then 0 else float_sum xs)"

text \<open>\<open>round(x, ndigits)\<close>: the closest multiple of \<open>10 ^ -ndigits\<close>, a tie going to the
  even multiple.\<close>

definition round_half_even :: "real \<Rightarrow> int" where
  "round_half_even y =
     (let f = \<lfloor>y\<rfloor>; d = y - of_int f
      in if d < 1 / 2 then f else if 1 / 2 < d then f + 1 else if even f then f else f + 1)"

definition py_round :: "real \<Rightarrow> nat \<Rightarrow> real" where
  "py_round x ndigits = of_int (round_half_even (x * 10 ^ ndigits)) / 10 ^ ndigits"

text \<open>
  Rendering a float as text (\<open>str\<close>, \<open>%.3f\<close>, \<open>{x:.2f}\<close>) depends on the binary value
  and is a parameter of every function that builds a message from a float: the
  theorems hold for each rendering. \<open>fmt_fixed k\<close> is the fixed-point rendering with
  \<open>k\<close> decimals of the exact value, used where a concrete rendering is needed.
\<close>

fun nat_str :: "nat \<Rightarrow> string" where
  "nat_str n =
     (if n < 10 then [''0123456789'' ! n]
      else nat_str (n div 10) @ [''0123456789'' ! (n mod 10)])"

definition fmt_fixed :: "nat \<Rightarrow> real \<Rightarrow> string" where
  "fmt_fixed k x =
     (let m = nat \<bar>round_half_even (x * 10 ^ k)\<bar>;
          frac = nat_str (m mod 10 ^ k)
      in (if x < 0 then ''-'' else '''') @ nat_str (m div 10 ^ k) @
         (if k = 0 then '''' else ''.'' @ replicate (k - length frac) CHR ''0'' @ frac))"

section \<open>dfw\_kernel.py: violation score and action choice\<close>

definition P1_WEIGHT :: int where "P1_WEIGHT = 10 ^ 6"
definition P2_WEIGHT :: int where "P2_WEIGHT = 10 ^ 3"
definition P3_WEIGHT :: int where "P3_WEIGHT = 10"

record Action =
  name :: string
  description :: string
  tags :: "string list"
  causes_irreversible_harm :: bool
  violates_truth_lock :: bool
  violates_auth_lock :: bool
  violates_resource_bounds :: bool
  is_rescue :: bool

record SafeState =
  imminent_harm :: bool

definition violation_score :: "Action \<Rightarrow> SafeState \<Rightarrow> int" where
  "violation_score action state =
     (let score = 0;
          score = (if causes_irreversible_harm action then score + P1_WEIGHT else score);
          score = (if violates_truth_lock action \<or> violates_auth_lock action
                   then score + P2_WEIGHT else score);
          score = (if violates_resource_bounds action then score + P3_WEIGHT else score);
          score = (if imminent_harm state \<and> \<not> is_rescue action
                   then score + P1_WEIGHT else score)
      in score)"

text \<open>The entries of the list \<open>scored\<close>: the dictionaries \<open>{"action": a, "score": v}\<close>.\<close>

record Scored =
  action :: Action
  score :: int

text \<open>\<open>list.sort(key=...)\<close> is a stable sort by the key, as \<^const>\<open>sort_key\<close> is; the keys
  are pairs compared lexicographically, the names by code points.\<close>

definition choose_action :: "Action list \<Rightarrow> SafeState \<Rightarrow> error + Action" where
  "choose_action candidate_actions state =
     (if candidate_actions = [] then Inl (ValueError ''No candidate actions provided.'')
      else
        let scored = map (\<lambda>a. \<lparr>action = a, score = violation_score a state\<rparr>) candidate_actions;
            scored = sort_key (\<lambda>x. (score x, name (action x))) scored
        in (case scored of [] \<Rightarrow> Inl IndexError | x # _ \<Rightarrow> Inr (action x)))"

section \<open>cpm\_simulator.py: the ensemble aggregate\<close>

definition aggregate_ensemble_confidence :: "real list \<Rightarrow> error + real" where
  "aggregate_ensemble_confidence confidences =
     (if confidences = [] then Inr 0.0 else py_max confidences)"

section \<open>safe\_mode.py: the safe-mode state\<close>

record SafeModeState =
  active :: bool
  reason :: string

definition en_dash :: string where
  "en_dash = [CHR 0xE2, CHR 0x80, CHR 0x93]"

text \<open>Both procedures mutate the state they are given and print one line; the model returns
  the line printed and the state after the call.\<close>

definition enter_safe_mode :: "SafeModeState \<Rightarrow> string \<Rightarrow> string \<times> SafeModeState" where
  "enter_safe_mode state why =
     (let state = state\<lparr>active := True\<rparr>;
          state = state\<lparr>reason := why\<rparr>
      in (''[SAFE MODE] ENTERED '' @ en_dash @ '' reason: '' @ why, state))"

definition exit_safe_mode :: "SafeModeState \<Rightarrow> bool \<Rightarrow> string \<times> SafeModeState" where
  "exit_safe_mode state authorised =
     (if \<not> authorised
      then (''[SAFE MODE] Exit requested but not authorised '' @ en_dash @
            '' staying in Safe Mode.'', state)
      else
        let state = state\<lparr>active := False\<rparr>;
            state = state\<lparr>reason := ''''\<rparr>
        in (''[SAFE MODE] EXITED by authorised command.'', state))"

section \<open>dfw\_v6\_master\_metadata.py and dfw\_v6\_master\_demo.py: the metadata veto\<close>

text \<open>
  The dictionary \<open>reported\<close>: each key of \<open>EXPECTED_SCHEMA\<close> is present with a value of
  its schema type, or absent (\<open>None\<close>); \<open>reported.get(k, d)\<close> is \<open>dict_get\<close>. On values
  of the schema types the conversions \<open>str\<close>, \<open>int\<close> and \<open>float\<close> of the source are
  the identity. The confidence is a mean of at most four constants of two decimals, rounded
  to two decimals before it is returned: the mean is taken exactly, and on every
  combination of rules that can trigger the rounded value is the one the floats give.
\<close>

record Metadata =
  action_type :: "string option"
  target_object :: "string option"
  target_coords :: "(real \<times> real \<times> real) option"
  estimated_consequences :: "string option"
  predicted_p1_violation :: "bool option"
  predicted_p2_violation :: "bool option"
  resource_cost_units :: "int option"
  execution_time_seconds :: "real option"

definition dict_get :: "'a option \<Rightarrow> 'a \<Rightarrow> 'a" where
  "dict_get v d = (case v of None \<Rightarrow> d | Some x \<Rightarrow> x)"

text \<open>The result dictionaries \<open>{"veto": ..., "reason": ..., ...}\<close>.\<close>

record VetoResult =
  veto :: bool
  reason :: string

record MetaResult = VetoResult +
  confidence :: real

definition CRITICAL_ASSETS :: "string list" where
  "CRITICAL_ASSETS =
     [''Critical System 7'', ''Global Network Link'', ''Human Control Panel'', ''Life Support'']"

definition CRITICAL_ASSETS_demo :: "string list" where
  "CRITICAL_ASSETS_demo =
     [''Critical System 7'', ''Critical System 7 access path'', ''Global Network Link'',
      ''Human Control Panel'', ''Life Support'']"

definition MAX_TIME_BY_ACTION :: "string \<rightharpoonup> real" where
  "MAX_TIME_BY_ACTION =
     map_of [(''MOVE'', 100.0), (''ACQUIRE'', 60.0), (''COMMUNICATE'', 10.0),
             (''ANALYSIS'', 1200.0)]"

definition is_critical_target :: "string \<Rightarrow> bool" where
  "is_critical_target target = list_ex (\<lambda>asset. str_in asset target) CRITICAL_ASSETS"

definition is_critical_target_demo :: "string \<Rightarrow> bool" where
  "is_critical_target_demo target = list_ex (\<lambda>asset. str_in asset target) CRITICAL_ASSETS_demo"

text \<open>\<open>veto_metadata\<close> of dfw\_v6\_master\_metadata.py; \<open>float_str\<close> renders the floats of
  the message of the third rule.\<close>

definition veto_metadata :: "(real \<Rightarrow> string) \<Rightarrow> Metadata \<Rightarrow> MetaResult" where
  "veto_metadata float_str reported =
     (let reasons = [];
          confidence_sum = 0.0;
          consequences = lower (dict_get (estimated_consequences reported) '''');
          (reasons, confidence_sum) =
            (if dict_get (predicted_p1_violation reported) False
                \<and> str_in ''no observable physical change'' consequences
             then (reasons @ [''Veto 1: P1=True with 'no observable physical change' text.''],
                   confidence_sum + 0.95)
             else (reasons, confidence_sum));
          cost = dict_get (resource_cost_units reported) 0;
          (reasons, confidence_sum) =
            (if dict_get (predicted_p1_violation reported) False
                \<or> dict_get (predicted_p2_violation reported) False
             then (if cost < 10
                   then (reasons @ [''Veto 2: High P1/P2 risk with suspiciously low cost.''],
                         confidence_sum + 0.50)
                   else (reasons, confidence_sum))
             else (reasons, confidence_sum));
          act = dict_get (action_type reported) ''UNKNOWN'';
          time_max = dict_get (MAX_TIME_BY_ACTION act) 9999.0;
          exec_time = dict_get (execution_time_seconds reported) 0.0;
          (reasons, confidence_sum) =
            (if exec_time > time_max
             then (reasons @ [''Veto 3: Exec time '' @ float_str exec_time @
                              ''s exceeds invariant for '' @ act @
                              '' (max '' @ float_str time_max @ ''s).''],
                   confidence_sum + 0.85)
             else (reasons, confidence_sum));
          target = dict_get (target_object reported) '''';
          (reasons, confidence_sum) =
            (if is_critical_target target \<and> \<not> dict_get (predicted_p1_violation reported) False
             then (reasons @ [''Veto 4: Critical asset '' @ [CHR 0x27] @ target @ [CHR 0x27] @
                              '' targeted with P1=False in metadata.''],
                   confidence_sum + 0.90)
             else (reasons, confidence_sum))
      in if reasons \<noteq> []
         then let final_confidence = min 1.0 (confidence_sum / real (length reasons))
              in \<lparr>veto = True, reason = join ''; '' reasons,
                  confidence = py_round final_confidence 2\<rparr>
         else \<lparr>veto = False, reason = ''No ATL invariant violated.'', confidence = 0.0\<rparr>)"

text \<open>\<open>veto_metadata\<close> of dfw\_v6\_master\_demo.py: its own asset list and another wording
  of the second message.\<close>

definition veto_metadata_demo :: "(real \<Rightarrow> string) \<Rightarrow> Metadata \<Rightarrow> MetaResult" where
  "veto_metadata_demo float_str reported =
     (let reasons = [];
          confidence_sum = 0.0;
          consequences = lower (dict_get (estimated_consequences reported) '''');
          (reasons, confidence_sum) =
            (if dict_get (predicted_p1_violation reported) False
                \<and> str_in ''no observable physical change'' consequences
             then (reasons @ [''Veto 1: P1=True with 'no observable physical change' text.''],
                   confidence_sum + 0.95)
             else (reasons, confidence_sum));
          cost = dict_get (resource_cost_units reported) 0;
          (reasons, confidence_sum) =
            (if dict_get (predicted_p1_violation reported) False
                \<or> dict_get (predicted_p2_violation reported) False
             then (if cost < 10
                   then (reasons @
                           [''Veto 2: High P1/P2 risk with suspiciously low resource cost.''],
                         confidence_sum + 0.50)
                   else (reasons, confidence_sum))
             else (reasons, confidence_sum));
          act = dict_get (action_type reported) ''UNKNOWN'';
          time_max = dict_get (MAX_TIME_BY_ACTION act) 9999.0;
          exec_time = dict_get (execution_time_seconds reported) 0.0;
          (reasons, confidence_sum) =
            (if exec_time > time_max
             then (reasons @ [''Veto 3: Exec time '' @ float_str exec_time @
                              ''s exceeds invariant for '' @ act @
                              '' (max '' @ float_str time_max @ ''s).''],
                   confidence_sum + 0.85)
             else (reasons, confidence_sum));
          target = dict_get (target_object reported) '''';
          (reasons, confidence_sum) =
            (if is_critical_target_demo target
                \<and> \<not> dict_get (predicted_p1_violation reported) False
             then (reasons @ [''Veto 4: Critical asset '' @ [CHR 0x27] @ target @ [CHR 0x27] @
                              '' targeted with P1=False in metadata.''],
                   confidence_sum + 0.90)
             else (reasons, confidence_sum))
      in if reasons \<noteq> []
         then let final_confidence = min 1.0 (confidence_sum / real (length reasons))
              in \<lparr>veto = True, reason = join ''; '' reasons,
                  confidence = py_round final_confidence 2\<rparr>
         else \<lparr>veto = False, reason = ''No ATL invariant violated.'', confidence = 0.0\<rparr>)"

section \<open>dfw\_v6\_risk\_trajectory\_harness.py: the long-horizon guard\<close>

record RmdmResult = VetoResult +
  max_d1 :: real
  max_d2 :: real

record HraiResult = VetoResult +
  mass :: real

record GuardResult = VetoResult +
  rmdm :: RmdmResult
  hrai :: HraiResult

text \<open>The non-ASCII characters of the messages: capital delta, superscript two, theta.\<close>

definition Delta_sym :: string where
  "Delta_sym = [CHR 0xCE, CHR 0x94]"

definition squared_sym :: string where
  "squared_sym = [CHR 0xC2, CHR 0xB2]"

definition theta_sym :: string where
  "theta_sym = [CHR 0xCE, CHR 0xB8]"

text \<open>\<open>rmdm_check\<close>; \<open>fmt3\<close> renders a float as \<open>%.3f\<close> does, \<open>float_sub\<close> is the
  subtraction of floats. The two calls of \<open>max\<close> can raise in Python, so the result is a
  sum.\<close>

definition rmdm_check ::
  "(real \<Rightarrow> string) \<Rightarrow> (real \<Rightarrow> real \<Rightarrow> real) \<Rightarrow> real list \<Rightarrow> real \<Rightarrow> real
     \<Rightarrow> error + RmdmResult" where
  "rmdm_check fmt3 float_sub risks gamma1 gamma2 =
     (let reasons = [];
          n = length risks
      in if n < 3
         then Inr \<lparr>veto = False, reason = ''RMDM: trajectory too short.'',
                   max_d1 = 0.0, max_d2 = 0.0\<rparr>
         else
           let d1 = map (\<lambda>i. float_sub (risks ! (i + 1)) (risks ! i)) [0 ..< n - 1];
               d2 = map (\<lambda>i. float_sub (d1 ! (i + 1)) (d1 ! i)) [0 ..< length d1 - 1]
           in case py_max d1 of
                Inl e \<Rightarrow> Inl e
              | Inr m1 \<Rightarrow>
                  (case (if d2 \<noteq> [] then py_max d2 else Inr 0.0) of
                     Inl e \<Rightarrow> Inl e
                   | Inr m2 \<Rightarrow>
                       (let max_d1 = m1;
                            max_d2 = m2;
                            reasons =
                              (if max_d1 > gamma1
                               then reasons @
                                 [''RMDM: steep gradient detected (max '' @ Delta_sym @
                                  ''R = '' @ fmt3 max_d1 @ '' > '' @ fmt3 gamma1 @ '')'']
                               else reasons);
                            reasons =
                              (if max_d2 > gamma2
                               then reasons @
                                 [''RMDM: accelerating gradient detected (max '' @ Delta_sym @
                                  squared_sym @ ''R = '' @ fmt3 max_d2 @ '' > '' @
                                  fmt3 gamma2 @ '')'']
                               else reasons);
                            veto = (length reasons > 0);
                            reason_text =
                              (if reasons \<noteq> [] then join ''; '' reasons
                               else ''RMDM: no gradient/acceleration breach.'')
                        in Inr \<lparr>veto = veto, reason = reason_text,
                                 max_d1 = py_round max_d1 4, max_d2 = py_round max_d2 4\<rparr>)))"

text \<open>\<open>hrai_check\<close>; \<open>float_sum\<close> is the sum of floats.\<close>

definition hrai_check ::
  "(real \<Rightarrow> string) \<Rightarrow> (real list \<Rightarrow> real) \<Rightarrow> real list \<Rightarrow> real \<Rightarrow> HraiResult" where
  "hrai_check fmt3 float_sum risks theta =
     (if risks = []
      then \<lparr>veto = False, reason = ''HRAI: empty trajectory.'', mass = 0.0\<rparr>
      else
        let mass = py_sum float_sum risks
        in if mass > theta
           then \<lparr>veto = True,
                 reason = ''HRAI: accumulated risk mass '' @ fmt3 mass @ '' exceeds '' @
                          theta_sym @ ''='' @ fmt3 theta,
                 mass = py_round mass 4\<rparr>
           else \<lparr>veto = False,
                 reason = ''HRAI: accumulated risk mass '' @ fmt3 mass @ '' below '' @
                          theta_sym @ ''='' @ fmt3 theta,
                 mass = py_round mass 4\<rparr>)"

definition long_horizon_guard ::
  "(real \<Rightarrow> string) \<Rightarrow> (real \<Rightarrow> real \<Rightarrow> real) \<Rightarrow> (real list \<Rightarrow> real) \<Rightarrow>
     real list \<Rightarrow> real \<Rightarrow> real \<Rightarrow> real \<Rightarrow> error + GuardResult" where
  "long_horizon_guard fmt3 float_sub float_sum risks gamma1 gamma2 theta =
     (case rmdm_check fmt3 float_sub risks gamma1 gamma2 of
        Inl e \<Rightarrow> Inl e
      | Inr rmdm_res \<Rightarrow>
          (let hrai_res = hrai_check fmt3 float_sum risks theta;
               veto = (veto rmdm_res \<or> veto hrai_res);
               reasons = [];
               reasons = (if VetoResult.veto rmdm_res
                          then reasons @ [''RMDM: '' @ reason rmdm_res] else reasons);
               reasons = (if VetoResult.veto hrai_res
                          then reasons @ [''HRAI: '' @ reason hrai_res] else reasons);
               reasons = (if reasons = []
                          then reasons @ [''No long-horizon guard triggered (RMDM + HRAI).'']
                          else reasons)
           in Inr \<lparr>veto = veto, reason = join '' | '' reasons,
                    rmdm = rmdm_res, hrai = hrai_res\<rparr>))"

section \<open>Definitions for the statements\<close>

text \<open>The part of the score that comes from the tiers below the first.\<close>

definition lower_tiers :: "Action \<Rightarrow> int" where
  "lower_tiers a =
     (if violates_truth_lock a \<or> violates_auth_lock a then P2_WEIGHT else 0) +
     (if violates_resource_bounds a then P3_WEIGHT else 0)"

text \<open>Concrete actions and states for the examples.\<close>

definition plain_action :: "string \<Rightarrow> Action" where
  "plain_action n =
     \<lparr>name = n, description = '''', tags = [], causes_irreversible_harm = False,
      violates_truth_lock = False, violates_auth_lock = False,
      violates_resource_bounds = False, is_rescue = False\<rparr>"

definition harmful_rescue :: Action where
  "harmful_rescue = (plain_action ''HarmfulRescue'')
     \<lparr>causes_irreversible_harm := True, is_rescue := True\<rparr>"

definition idle_liar :: Action where
  "idle_liar = (plain_action ''IdleLiar'')\<lparr>violates_truth_lock := True\<rparr>"

definition harm_idle :: Action where
  "harm_idle = (plain_action ''HarmIdle'')\<lparr>causes_irreversible_harm := True\<rparr>"

definition danger :: SafeState where
  "danger = \<lparr>imminent_harm = True\<rparr>"

definition calm :: SafeState where
  "calm = \<lparr>imminent_harm = False\<rparr>"

definition demo_state :: SafeModeState where
  "demo_state =
     \<lparr>active = True,
      SafeModeState.reason = ''HFL metadata inconsistency + CPM disagreement''\<rparr>"

definition do_nothing :: Action where
  "do_nothing = (plain_action ''DoNothing'')
     \<lparr>description := ''Remain idle while human is in danger.'', tags := [''idle'']\<rparr>"

definition rescue_human :: Action where
  "rescue_human = (plain_action ''RescueHuman'')
     \<lparr>description := ''Move to human and pull them out of danger.'', tags := [''rescue''],
      is_rescue := True\<rparr>"

definition alpha :: Action where "alpha = plain_action ''Alpha''"
definition beta :: Action where "beta = plain_action ''Beta''"

text \<open>The four rules as the specification words them, over the configured tables.\<close>

definition rule1_contradiction :: "Metadata \<Rightarrow> bool" where
  "rule1_contradiction r \<longleftrightarrow>
     dict_get (predicted_p1_violation r) False \<and>
     str_in ''no observable physical change'' (lower (dict_get (estimated_consequences r) ''''))"

definition rule2_cheap_high_risk :: "Metadata \<Rightarrow> bool" where
  "rule2_cheap_high_risk r \<longleftrightarrow>
     (dict_get (predicted_p1_violation r) False \<or> dict_get (predicted_p2_violation r) False) \<and>
     dict_get (resource_cost_units r) 0 < 10"

definition time_maximum :: "Metadata \<Rightarrow> real" where
  "time_maximum r = dict_get (MAX_TIME_BY_ACTION (dict_get (action_type r) ''UNKNOWN'')) 9999"

definition rule3_time_disproportion :: "Metadata \<Rightarrow> bool" where
  "rule3_time_disproportion r \<longleftrightarrow> time_maximum r < dict_get (execution_time_seconds r) 0"

definition rule4_critical_asset :: "string list \<Rightarrow> Metadata \<Rightarrow> bool" where
  "rule4_critical_asset assets r \<longleftrightarrow>
     list_ex (\<lambda>asset. str_in asset (dict_get (target_object r) '''')) assets \<and>
     \<not> dict_get (predicted_p1_violation r) False"

definition triggered_confidences :: "string list \<Rightarrow> Metadata \<Rightarrow> real list" where
  "triggered_confidences assets r =
     (if rule1_contradiction r then [0.95] else []) @
     (if rule2_cheap_high_risk r then [0.50] else []) @
     (if rule3_time_disproportion r then [0.85] else []) @
     (if rule4_critical_asset assets r then [0.90] else [])"

definition mean :: "real list \<Rightarrow> real" where
  "mean xs = sum_list xs / real (length xs)"

definition clean_metadata :: Metadata where
  "clean_metadata =
     \<lparr>action_type = Some ''MOVE'', target_object = Some ''safe_container'',
      target_coords = Some (1.0, 2.0, 0.0), estimated_consequences = Some ''Target reached.'',
      predicted_p1_violation = Some False, predicted_p2_violation = Some False,
      resource_cost_units = Some 1, execution_time_seconds = Some 0.5\<rparr>"

definition contradictory_fields :: Metadata where
  "contradictory_fields = clean_metadata
     \<lparr>action_type := Some ''COMMUNICATE'',
      estimated_consequences := Some ''No observable physical change will occur.'',
      predicted_p1_violation := Some True\<rparr>"

definition teleport_slow :: Metadata where
  "teleport_slow = clean_metadata
     \<lparr>action_type := Some ''TELEPORT'', execution_time_seconds := Some 10000.0\<rparr>"

text \<open>The differences of neighbours, taken with the subtraction \<open>sub\<close>, by recursion on the
  list.\<close>

fun differences :: "(real \<Rightarrow> real \<Rightarrow> real) \<Rightarrow> real list \<Rightarrow> real list" where
  "differences sub (x # y # ys) = sub y x # differences sub (y # ys)"
| "differences sub _ = []"


definition late_spike :: "real list" where
  "late_spike = [0.03125, 0.03125, 0.5]"


definition initial_state :: SafeModeState where
  "initial_state = \<lparr>active = False, SafeModeState.reason = ''''\<rparr>"

definition teleport_quick :: Metadata where
  "teleport_quick = clean_metadata
     \<lparr>action_type := Some ''TELEPORT'', execution_time_seconds := Some 9999.0\<rparr>"

section \<open>Properties of the violation score\<close>

lemma violation_score_sum:
  "violation_score a s =
     (if causes_irreversible_harm a then P1_WEIGHT else 0) +
     (if violates_truth_lock a \<or> violates_auth_lock a then P2_WEIGHT else 0) +
     (if violates_resource_bounds a then P3_WEIGHT else 0) +
     (if imminent_harm s \<and> \<not> is_rescue a then P1_WEIGHT else 0)"
  by (simp add: violation_score_def Let_def)

lemma violation_score_tiers:
  "violation_score a s =
     (if causes_irreversible_harm a then P1_WEIGHT else 0) + lower_tiers a +
     (if imminent_harm s \<and> \<not> is_rescue a then P1_WEIGHT else 0)"
  by (simp add: violation_score_sum lower_tiers_def)

lemma lower_tiers_bounds: "0 \<le> lower_tiers a" "lower_tiers a < P1_WEIGHT"
  by (simp_all add: lower_tiers_def P1_WEIGHT_def P2_WEIGHT_def P3_WEIGHT_def)

lemma P1_WEIGHT_pos: "0 < P1_WEIGHT"
  by (simp add: P1_WEIGHT_def)

text \<open>
  C1, as stated, fails: under imminent harm an action that causes irreversible harm but is
  a rescue scores \<open>10^6\<close>, while an action without the harm flag that is no rescue and
  violates the truth lock scores \<open>10^6 + 10^3\<close>.
\<close>

theorem C1_harm_not_always_greater:
  "causes_irreversible_harm harmful_rescue \<and> \<not> causes_irreversible_harm idle_liar \<and>
   violation_score harmful_rescue danger = 1000000 \<and>
   violation_score idle_liar danger = 1001000 \<and>
   \<not> violation_score idle_liar danger < violation_score harmful_rescue danger"
  by (simp add: violation_score_sum harmful_rescue_def idle_liar_def plain_action_def
      danger_def P1_WEIGHT_def P2_WEIGHT_def P3_WEIGHT_def)

text \<open>
  C1 (amended): every action with \<open>causes_irreversible_harm\<close> scores at least the tier-1
  weight, under every state; and it scores strictly more than any action without that flag
  under the same state, except when the state has imminent harm, the harmful action is a
  rescue and the other action is not: the other action then carries the omission penalty,
  each of the two scores is one tier-1 weight plus the action's own tier-2 and tier-3
  contributions, and these lower tiers alone decide the order.
\<close>

theorem C1_harm_dominates:
  assumes "causes_irreversible_harm a"
  shows "P1_WEIGHT \<le> violation_score a s \<and>
         (\<forall>b. \<not> causes_irreversible_harm b \<and>
               \<not> (imminent_harm s \<and> is_rescue a \<and> \<not> is_rescue b)
               \<longrightarrow> violation_score b s < violation_score a s) \<and>
         (\<forall>b. \<not> causes_irreversible_harm b \<and>
               imminent_harm s \<and> is_rescue a \<and> \<not> is_rescue b
               \<longrightarrow> violation_score a s = P1_WEIGHT + lower_tiers a \<and>
                   violation_score b s = P1_WEIGHT + lower_tiers b)"
proof (intro conjI allI impI)
  show "P1_WEIGHT \<le> violation_score a s"
    using assms lower_tiers_bounds(1) [of a] P1_WEIGHT_pos
    by (simp add: violation_score_tiers)
next
  fix b :: Action
  assume h: "\<not> causes_irreversible_harm b \<and>
             \<not> (imminent_harm s \<and> is_rescue a \<and> \<not> is_rescue b)"
  show "violation_score b s < violation_score a s"
    using assms h lower_tiers_bounds(2) [of b] lower_tiers_bounds(1) [of a] P1_WEIGHT_pos
    by (auto simp add: violation_score_tiers)
next
  fix b :: Action
  assume h: "\<not> causes_irreversible_harm b \<and>
             imminent_harm s \<and> is_rescue a \<and> \<not> is_rescue b"
  show "violation_score a s = P1_WEIGHT + lower_tiers a"
    using assms h by (simp add: violation_score_tiers)
next
  fix b :: Action
  assume h: "\<not> causes_irreversible_harm b \<and>
             imminent_harm s \<and> is_rescue a \<and> \<not> is_rescue b"
  show "violation_score b s = P1_WEIGHT + lower_tiers b"
    using h by (simp add: violation_score_tiers)
qed

theorem C1_harm_dominates_witness:
  "causes_irreversible_harm harm_idle \<and> \<not> causes_irreversible_harm idle_liar \<and>
   \<not> (imminent_harm danger \<and> is_rescue harm_idle \<and> \<not> is_rescue idle_liar) \<and>
   P1_WEIGHT \<le> violation_score harm_idle danger \<and>
   violation_score idle_liar danger < violation_score harm_idle danger \<and>
   causes_irreversible_harm harmful_rescue \<and>
   imminent_harm danger \<and> is_rescue harmful_rescue \<and> \<not> is_rescue idle_liar \<and>
   violation_score harmful_rescue danger = P1_WEIGHT + lower_tiers harmful_rescue \<and>
   violation_score idle_liar danger = P1_WEIGHT + lower_tiers idle_liar"
proof -
  have h: "causes_irreversible_harm harm_idle"
    by (simp add: harm_idle_def plain_action_def)
  have g: "\<not> causes_irreversible_harm idle_liar \<and>
           \<not> (imminent_harm danger \<and> is_rescue harm_idle \<and> \<not> is_rescue idle_liar)"
    by (simp add: harm_idle_def idle_liar_def plain_action_def)
  have h': "causes_irreversible_harm harmful_rescue"
    by (simp add: harmful_rescue_def plain_action_def)
  have g': "\<not> causes_irreversible_harm idle_liar \<and>
            imminent_harm danger \<and> is_rescue harmful_rescue \<and> \<not> is_rescue idle_liar"
    by (simp add: harmful_rescue_def idle_liar_def plain_action_def danger_def)
  from C1_harm_dominates [OF h, of danger] C1_harm_dominates [OF h', of danger] g h g' h'
  show ?thesis by blast
qed

text \<open>
  C2: under imminent harm, an action that is not a rescue gets the tier-1 weight once more,
  on top of the sum of its other contributions (which is its score in the state without
  imminent harm); with \<open>causes_irreversible_harm\<close> both tier-1 contributions are present and
  the score is at least twice the tier-1 weight.
\<close>

theorem C2_omission_penalty:
  assumes "imminent_harm s" and "\<not> is_rescue a"
  shows "violation_score a s =
           (if causes_irreversible_harm a then P1_WEIGHT else 0) +
           (if violates_truth_lock a \<or> violates_auth_lock a then P2_WEIGHT else 0) +
           (if violates_resource_bounds a then P3_WEIGHT else 0) + P1_WEIGHT \<and>
         violation_score a s = violation_score a (s\<lparr>imminent_harm := False\<rparr>) + P1_WEIGHT \<and>
         (causes_irreversible_harm a \<longrightarrow> 2 * P1_WEIGHT \<le> violation_score a s)"
  using assms lower_tiers_bounds(1) [of a] P1_WEIGHT_pos
  by (simp add: violation_score_sum lower_tiers_def)

theorem C2_omission_penalty_witness:
  "imminent_harm danger \<and> \<not> is_rescue harm_idle \<and> causes_irreversible_harm harm_idle \<and>
   violation_score harm_idle danger = 2000000 \<and>
   violation_score harm_idle (danger\<lparr>imminent_harm := False\<rparr>) = 1000000 \<and>
   2 * P1_WEIGHT \<le> violation_score harm_idle danger"
proof -
  have h: "imminent_harm danger" "\<not> is_rescue harm_idle"
    by (simp_all add: danger_def harm_idle_def plain_action_def)
  from C2_omission_penalty [OF h] show ?thesis
    by (simp add: danger_def harm_idle_def plain_action_def violation_score_sum
        P1_WEIGHT_def P2_WEIGHT_def P3_WEIGHT_def)
qed

section \<open>The ensemble aggregate\<close>

lemma foldl_keep_max:
  "foldl (\<lambda>m y. if y > m then y else m) (x::real) xs = Max (insert x (set xs))"
proof (induction xs arbitrary: x)
  case Nil
  then show ?case by simp
next
  case (Cons y ys)
  have "Max (insert (if x < y then y else x) (set ys)) = Max (insert x (insert y (set ys)))"
  proof (cases "set ys = {}")
    case True
    then show ?thesis by (simp add: max_def)
  next
    case False
    then show ?thesis by (simp add: max_def)
  qed
  with Cons show ?case by simp
qed

lemma py_max_Max: "xs \<noteq> [] \<Longrightarrow> py_max xs = Inr (Max (set xs))"
  by (cases xs) (simp_all add: foldl_keep_max)

lemma Max_list_update_mono:
  fixes xs :: "real list"
  assumes "i < length xs" and "xs ! i \<le> v"
  shows "Max (set xs) \<le> Max (set (xs[i := v]))"
proof -
  from assms(1) have ne: "xs \<noteq> []" by auto
  have "\<exists>b\<in>set (xs[i := v]). a \<le> b" if "a \<in> set xs" for a
  proof -
    from that obtain j where j: "j < length xs" "a = xs ! j"
      by (auto simp: in_set_conv_nth)
    show ?thesis
    proof (cases "j = i")
      case True
      with assms j have "a \<le> v" by simp
      moreover from assms(1) have "v \<in> set (xs[i := v])"
        by (simp add: set_update_memI)
      ultimately show ?thesis by blast
    next
      case False
      with j have "xs[i := v] ! j = a" by simp
      moreover from j have "xs[i := v] ! j \<in> set (xs[i := v])"
        by simp
      ultimately show ?thesis by auto
    qed
  qed
  then show ?thesis
    using ne by (subst Max_le_iff) (auto simp: Max_ge_iff)
qed

text \<open>
  C9: the aggregate of the empty sequence is exactly \<open>0.0\<close>, the aggregate of a non-empty
  sequence is its largest element, and replacing one input by a larger value never
  decreases the aggregate.
\<close>

theorem C9_aggregate_max_monotone:
  "aggregate_ensemble_confidence [] = Inr 0 \<and>
   (xs \<noteq> [] \<longrightarrow> aggregate_ensemble_confidence xs = Inr (Max (set xs))) \<and>
   (i < length xs \<and> xs ! i \<le> v \<longrightarrow>
      (\<exists>a b. aggregate_ensemble_confidence xs = Inr a \<and>
             aggregate_ensemble_confidence (xs[i := v]) = Inr b \<and> a \<le> b))"
proof (intro conjI impI)
  show "aggregate_ensemble_confidence [] = Inr 0"
    by (simp add: aggregate_ensemble_confidence_def)
next
  assume "xs \<noteq> []"
  then show "aggregate_ensemble_confidence xs = Inr (Max (set xs))"
    by (simp add: aggregate_ensemble_confidence_def py_max_Max)
next
  assume h: "i < length xs \<and> xs ! i \<le> v"
  then have ne: "xs \<noteq> []" "xs[i := v] \<noteq> []" by auto
  from h have "Max (set xs) \<le> Max (set (xs[i := v]))"
    by (simp add: Max_list_update_mono)
  with ne show "\<exists>a b. aggregate_ensemble_confidence xs = Inr a \<and>
             aggregate_ensemble_confidence (xs[i := v]) = Inr b \<and> a \<le> b"
    by (simp add: aggregate_ensemble_confidence_def py_max_Max)
qed

theorem C9_witness:
  "[0.2, 0.5, 0.3::real] \<noteq> [] \<and> 0 < length [0.2, 0.5, 0.3::real] \<and>
   [0.2, 0.5, 0.3::real] ! 0 \<le> 0.7 \<and>
   aggregate_ensemble_confidence [0.2, 0.5, 0.3] = Inr 0.5 \<and>
   aggregate_ensemble_confidence ([0.2, 0.5, 0.3][0 := 0.7]) = Inr 0.7"
  using C9_aggregate_max_monotone [of "[0.2, 0.5, 0.3]" 0 "0.7"]
  by (simp add: aggregate_ensemble_confidence_def)

section \<open>Leaving safe mode\<close>

text \<open>
  C7: an exit that is not authorised is refused without an error: it returns, with the
  refusal line printed and the state (flag and reason) exactly as it was; an authorised
  exit from safe mode clears the flag and sets the reason to the empty string.
\<close>

theorem C7_exit_safe_mode:
  "exit_safe_mode s False =
     (''[SAFE MODE] Exit requested but not authorised '' @ en_dash @
      '' staying in Safe Mode.'', s) \<and>
   (active s \<longrightarrow>
      active (snd (exit_safe_mode s True)) = False \<and>
      SafeModeState.reason (snd (exit_safe_mode s True)) = '''')"
  by (simp add: exit_safe_mode_def)

theorem C7_exit_safe_mode_witness:
  "active demo_state \<and>
   snd (exit_safe_mode demo_state False) = demo_state \<and>
   snd (exit_safe_mode demo_state True) = \<lparr>active = False, SafeModeState.reason = ''''\<rparr>"
  using C7_exit_safe_mode [of demo_state]
  by (simp add: demo_state_def exit_safe_mode_def)

text \<open>
  C10: an authorised exit yields the state \<open>(False, "")\<close> from every prior state, active
  or not, and a second authorised exit leaves that state as it is.
\<close>

theorem C10_authorised_exit_total_idempotent:
  "snd (exit_safe_mode s True) = \<lparr>active = False, SafeModeState.reason = ''''\<rparr> \<and>
   snd (exit_safe_mode (snd (exit_safe_mode s True)) True) = snd (exit_safe_mode s True)"
  by (simp add: exit_safe_mode_def)

section \<open>Choosing the least-violating action\<close>

lemma sort_key_head_least:
  assumes "sort_key f xs = y # ys"
  shows "y \<in> set xs \<and> (\<forall>x\<in>set xs. f y \<le> f x)"
proof -
  have "set (sort_key f xs) = set xs" by simp
  with assms have s: "set xs = insert y (set ys)" by simp
  have "sorted (map f (sort_key f xs))" by (rule sorted_sort_key)
  with assms have "\<forall>z\<in>set ys. f y \<le> f z" by simp
  with s show ?thesis by auto
qed

lemma choose_action_nonempty:
  assumes "cs \<noteq> []"
  shows "\<exists>r. choose_action cs s = Inr r \<and> r \<in> set cs \<and>
             (\<forall>b\<in>set cs. (violation_score r s, name r) \<le> (violation_score b s, name b))"
proof -
  define scored where
    "scored = sort_key (\<lambda>x. (score x, name (action x)))
       (map (\<lambda>a. \<lparr>action = a, score = violation_score a s\<rparr>) cs)"
  have "length scored = length cs" by (simp add: scored_def)
  with assms obtain x rest where xs: "scored = x # rest"
    by (cases scored) auto
  from sort_key_head_least [OF xs [unfolded scored_def]]
  have mem: "x \<in> (\<lambda>a. \<lparr>action = a, score = violation_score a s\<rparr>) ` set cs"
    and least: "\<forall>a\<in>set cs. (score x, name (action x)) \<le> (violation_score a s, name a)"
    by auto
  from mem obtain r where r: "r \<in> set cs" "x = \<lparr>action = r, score = violation_score r s\<rparr>"
    by auto
  have "choose_action cs s = Inr (action x)"
    using assms xs by (simp add: choose_action_def scored_def Let_def)
  with r least show ?thesis by auto
qed

lemma sort_key_head_first:
  assumes "sort_key f xs = y # ys"
  shows "y = hd (filter (\<lambda>x. f x = f y) xs)"
proof -
  have "filter (\<lambda>x. f x = f y) (sort_key f xs) = filter (\<lambda>x. f x = f y) xs"
    by (rule sort_key_stable)
  with assms have "filter (\<lambda>x. f x = f y) xs = y # filter (\<lambda>x. f x = f y) ys"
    by simp
  then show ?thesis by simp
qed

lemma choose_action_first_of_ties:
  assumes "choose_action cs s = Inr r"
  shows "r = hd (filter (\<lambda>b. violation_score b s = violation_score r s \<and> name b = name r) cs)"
proof -
  let ?mk = "\<lambda>a. \<lparr>action = a, score = violation_score a s\<rparr>"
  let ?key = "\<lambda>x. (score x, name (action x))"
  from assms have ne: "cs \<noteq> []"
    by (auto simp: choose_action_def)
  from assms ne obtain x rest where xs: "sort_key ?key (map ?mk cs) = x # rest" and r: "r = action x"
    by (auto simp: choose_action_def Let_def split: list.splits)
  from sort_key_head_least [OF xs] have "x \<in> ?mk ` set cs" by simp
  then have x: "x = ?mk r" using r by auto
  have "filter (\<lambda>y. ?key y = ?key x) (map ?mk cs) =
        map ?mk (filter (\<lambda>b. violation_score b s = violation_score r s \<and> name b = name r) cs)"
    by (simp add: filter_map o_def x)
  moreover from sort_key_head_first [OF xs]
  have "x = hd (filter (\<lambda>y. ?key y = ?key x) (map ?mk cs))" .
  moreover have "filter (\<lambda>y. ?key y = ?key x) (map ?mk cs) \<noteq> []"
    using sort_key_stable [of ?key "?key x" "map ?mk cs"] xs by auto
  ultimately have "x = ?mk (hd (filter (\<lambda>b. violation_score b s = violation_score r s \<and> name b = name r) cs))"
    by (simp add: hd_map)
  with x show ?thesis by simp
qed

text \<open>
  C3: on the empty candidate list \<open>choose_action\<close> fails with its one error of its own,
  the \<open>ValueError\<close> for missing candidates; on a non-empty list it returns a candidate
  that is least for the order by score, then by name: every candidate has a larger score,
  or the same score and a name that is not smaller. The result is a function of the list and
  the state alone: of the candidates with the score and the name of the result it is the
  first in the list.
\<close>

theorem C3_choose_action:
  "choose_action [] s = Inl (ValueError ''No candidate actions provided.'') \<and>
   (cs \<noteq> [] \<longrightarrow>
      (\<exists>r. choose_action cs s = Inr r \<and> r \<in> set cs \<and>
           (\<forall>b\<in>set cs. violation_score r s < violation_score b s \<or>
                (violation_score r s = violation_score b s \<and> name r \<le> name b)) \<and>
           r = hd (filter (\<lambda>b. violation_score b s = violation_score r s \<and> name b = name r)
                     cs)))"
proof (intro conjI impI)
  show "choose_action [] s = Inl (ValueError ''No candidate actions provided.'')"
    by (simp add: choose_action_def)
next
  assume "cs \<noteq> []"
  from choose_action_nonempty [OF this, of s]
  obtain r where r: "choose_action cs s = Inr r" "r \<in> set cs"
    and least: "\<forall>b\<in>set cs. (violation_score r s, name r) \<le> (violation_score b s, name b)"
    by blast
  have "violation_score r s < violation_score b s \<or>
        (violation_score r s = violation_score b s \<and> name r \<le> name b)"
    if "b \<in> set cs" for b
    using least that by (auto simp: order_le_less)
  with r choose_action_first_of_ties [OF r(1)]
  show "\<exists>r. choose_action cs s = Inr r \<and> r \<in> set cs \<and>
           (\<forall>b\<in>set cs. violation_score r s < violation_score b s \<or>
                (violation_score r s = violation_score b s \<and> name r \<le> name b)) \<and>
           r = hd (filter (\<lambda>b. violation_score b s = violation_score r s \<and> name b = name r)
                     cs)"
    by blast
qed

theorem C3_choose_action_witness:
  "[beta, alpha] \<noteq> [] \<and> choose_action [beta, alpha] calm = Inr alpha \<and>
   violation_score alpha calm = violation_score beta calm \<and> name alpha \<le> name beta \<and>
   choose_action [do_nothing, rescue_human] danger = Inr rescue_human"
  using C3_choose_action [of calm "[beta, alpha]"]
  by (simp add: choose_action_def alpha_def beta_def do_nothing_def rescue_human_def
      plain_action_def calm_def danger_def violation_score_sum
      P1_WEIGHT_def P2_WEIGHT_def P3_WEIGHT_def)

section \<open>The metadata veto\<close>

lemma join_Cons_nonempty: "x \<noteq> [] \<Longrightarrow> join sep (x # xs) \<noteq> []"
  by (cases xs) simp_all

lemmas rule_defs =
  rule1_contradiction_def rule2_cheap_high_risk_def rule3_time_disproportion_def
  rule4_critical_asset_def time_maximum_def

lemma veto_metadata_veto:
  "veto (veto_metadata fs r) \<longleftrightarrow> triggered_confidences CRITICAL_ASSETS r \<noteq> []"
  by (simp add: veto_metadata_def triggered_confidences_def rule_defs is_critical_target_def Let_def)

lemma veto_metadata_confidence:
  "confidence (veto_metadata fs r) =
     (if triggered_confidences CRITICAL_ASSETS r = [] then 0
      else py_round (min 1 (mean (triggered_confidences CRITICAL_ASSETS r))) 2)"
  by (simp add: veto_metadata_def triggered_confidences_def rule_defs is_critical_target_def Let_def mean_def)

lemma veto_metadata_reason: "reason (veto_metadata fs r) \<noteq> []"
  by (simp add: veto_metadata_def Let_def join_Cons_nonempty)


lemma veto_metadata_demo_veto:
  "veto (veto_metadata_demo fs r) \<longleftrightarrow> triggered_confidences CRITICAL_ASSETS_demo r \<noteq> []"
  by (simp add: veto_metadata_demo_def triggered_confidences_def rule_defs
      is_critical_target_demo_def Let_def)

lemma veto_metadata_demo_confidence:
  "confidence (veto_metadata_demo fs r) =
     (if triggered_confidences CRITICAL_ASSETS_demo r = [] then 0
      else py_round (min 1 (mean (triggered_confidences CRITICAL_ASSETS_demo r))) 2)"
  by (simp add: veto_metadata_demo_def triggered_confidences_def rule_defs
      is_critical_target_demo_def Let_def mean_def)

lemma veto_metadata_demo_reason: "reason (veto_metadata_demo fs r) \<noteq> []"
  by (simp add: veto_metadata_demo_def Let_def join_Cons_nonempty)

lemma lower_contradiction_text:
  "lower ''No observable physical change will occur.'' =
     ''no observable physical change will occur.''"
  by (simp add: lower_def lower_char_def)

lemma contradictory_triggers:
  "triggered_confidences CRITICAL_ASSETS contradictory_fields = [0.95, 0.50]"
  by (simp add: triggered_confidences_def rule_defs contradictory_fields_def clean_metadata_def
      dict_get_def lower_contradiction_text CRITICAL_ASSETS_def MAX_TIME_BY_ACTION_def)

lemma clean_triggers:
  "triggered_confidences CRITICAL_ASSETS clean_metadata = []"
  by (simp add: triggered_confidences_def rule_defs clean_metadata_def
      dict_get_def CRITICAL_ASSETS_def MAX_TIME_BY_ACTION_def)

lemma clean_triggers_demo:
  "triggered_confidences CRITICAL_ASSETS_demo clean_metadata = []"
  by (simp add: triggered_confidences_def rule_defs clean_metadata_def
      dict_get_def CRITICAL_ASSETS_demo_def MAX_TIME_BY_ACTION_def)

lemma contradictory_triggers_demo:
  "triggered_confidences CRITICAL_ASSETS_demo contradictory_fields = [0.95, 0.50]"
  by (simp add: triggered_confidences_def rule_defs contradictory_fields_def clean_metadata_def
      dict_get_def lower_contradiction_text CRITICAL_ASSETS_demo_def MAX_TIME_BY_ACTION_def)

text \<open>
  C4, as stated, fails: on the record with P1 set, the text "No observable physical change
  will occur." and cost 1, the first and the second rule trigger; the mean of their
  confidences is \<open>0.725\<close>, and the confidence returned is \<open>0.72\<close>.
\<close>

theorem C4_confidence_is_rounded:
  "veto_metadata (fmt_fixed 1) contradictory_fields =
     \<lparr>veto = True,
      reason = ''Veto 1: P1=True with 'no observable physical change' text.; '' @
               ''Veto 2: High P1/P2 risk with suspiciously low cost.'',
      confidence = 0.72\<rparr> \<and>
   veto_metadata_demo (fmt_fixed 1) contradictory_fields =
     \<lparr>veto = True,
      reason = ''Veto 1: P1=True with 'no observable physical change' text.; '' @
               ''Veto 2: High P1/P2 risk with suspiciously low resource cost.'',
      confidence = 0.72\<rparr> \<and>
   triggered_confidences CRITICAL_ASSETS contradictory_fields = [0.95, 0.50] \<and>
   triggered_confidences CRITICAL_ASSETS_demo contradictory_fields = [0.95, 0.50] \<and>
   min 1 (mean [0.95, 0.50]) = (0.725 :: real) \<and>
   confidence (veto_metadata (fmt_fixed 1) contradictory_fields) \<noteq>
     min 1 (mean (triggered_confidences CRITICAL_ASSETS contradictory_fields)) \<and>
   confidence (veto_metadata_demo (fmt_fixed 1) contradictory_fields) \<noteq>
     min 1 (mean (triggered_confidences CRITICAL_ASSETS_demo contradictory_fields))"
proof -
  have code: "veto_metadata (fmt_fixed 1) contradictory_fields =
     \<lparr>veto = True,
      reason = ''Veto 1: P1=True with 'no observable physical change' text.; '' @
               ''Veto 2: High P1/P2 risk with suspiciously low cost.'',
      confidence = 0.72\<rparr>"
    by (simp add: veto_metadata_def contradictory_fields_def clean_metadata_def dict_get_def
        lower_contradiction_text is_critical_target_def CRITICAL_ASSETS_def
        MAX_TIME_BY_ACTION_def Let_def py_round_def round_half_even_def)
  have code_demo: "veto_metadata_demo (fmt_fixed 1) contradictory_fields =
     \<lparr>veto = True,
      reason = ''Veto 1: P1=True with 'no observable physical change' text.; '' @
               ''Veto 2: High P1/P2 risk with suspiciously low resource cost.'',
      confidence = 0.72\<rparr>"
    by (simp add: veto_metadata_demo_def contradictory_fields_def clean_metadata_def
        dict_get_def lower_contradiction_text is_critical_target_demo_def
        CRITICAL_ASSETS_demo_def MAX_TIME_BY_ACTION_def Let_def py_round_def
        round_half_even_def)
  have m: "min 1 (mean [0.95, 0.50]) = (0.725 :: real)"
    by (simp add: mean_def)
  have ne: "confidence (veto_metadata (fmt_fixed 1) contradictory_fields) \<noteq>
      min 1 (mean (triggered_confidences CRITICAL_ASSETS contradictory_fields))"
    unfolding code contradictory_triggers m by simp
  have ne_demo: "confidence (veto_metadata_demo (fmt_fixed 1) contradictory_fields) \<noteq>
      min 1 (mean (triggered_confidences CRITICAL_ASSETS_demo contradictory_fields))"
    unfolding code_demo contradictory_triggers_demo m by simp
  from code code_demo contradictory_triggers contradictory_triggers_demo m ne ne_demo
  show ?thesis by blast
qed

text \<open>
  C4 (amended): with no rule triggering the result has \<open>veto = False\<close> and confidence
  exactly \<open>0.0\<close>; with one rule or more triggering it has \<open>veto = True\<close> and its
  confidence is the mean of the confidences of the triggered rules (\<open>0.95\<close>, \<open>0.50\<close>,
  \<open>0.85\<close>, \<open>0.90\<close>), capped at \<open>1.0\<close> and then rounded to two decimals. Both
  copies of \<open>veto_metadata\<close> behave so, each over its own list of critical assets.
\<close>

theorem C4_veto_metadata_confidence:
  "(triggered_confidences CRITICAL_ASSETS r = [] \<longrightarrow>
      \<not> veto (veto_metadata fs r) \<and> confidence (veto_metadata fs r) = 0) \<and>
   (triggered_confidences CRITICAL_ASSETS r \<noteq> [] \<longrightarrow>
      veto (veto_metadata fs r) \<and>
      confidence (veto_metadata fs r) =
        py_round (min 1 (mean (triggered_confidences CRITICAL_ASSETS r))) 2) \<and>
   (triggered_confidences CRITICAL_ASSETS_demo r = [] \<longrightarrow>
      \<not> veto (veto_metadata_demo fs r) \<and> confidence (veto_metadata_demo fs r) = 0) \<and>
   (triggered_confidences CRITICAL_ASSETS_demo r \<noteq> [] \<longrightarrow>
      veto (veto_metadata_demo fs r) \<and>
      confidence (veto_metadata_demo fs r) =
        py_round (min 1 (mean (triggered_confidences CRITICAL_ASSETS_demo r))) 2)"
  by (simp add: veto_metadata_veto veto_metadata_confidence
      veto_metadata_demo_veto veto_metadata_demo_confidence)

theorem C4_veto_metadata_confidence_witness:
  "triggered_confidences CRITICAL_ASSETS clean_metadata = [] \<and>
   \<not> veto (veto_metadata (fmt_fixed 1) clean_metadata) \<and>
   confidence (veto_metadata (fmt_fixed 1) clean_metadata) = 0 \<and>
   triggered_confidences CRITICAL_ASSETS contradictory_fields \<noteq> [] \<and>
   veto (veto_metadata (fmt_fixed 1) contradictory_fields) \<and>
   confidence (veto_metadata (fmt_fixed 1) contradictory_fields) = py_round 0.725 2 \<and>
   triggered_confidences CRITICAL_ASSETS_demo clean_metadata = [] \<and>
   \<not> veto (veto_metadata_demo (fmt_fixed 1) clean_metadata) \<and>
   confidence (veto_metadata_demo (fmt_fixed 1) clean_metadata) = 0 \<and>
   triggered_confidences CRITICAL_ASSETS_demo contradictory_fields \<noteq> [] \<and>
   veto (veto_metadata_demo (fmt_fixed 1) contradictory_fields) \<and>
   confidence (veto_metadata_demo (fmt_fixed 1) contradictory_fields) = py_round 0.725 2"
  using C4_veto_metadata_confidence [of clean_metadata "fmt_fixed 1"]
    C4_veto_metadata_confidence [of contradictory_fields "fmt_fixed 1"]
  by (simp add: clean_triggers contradictory_triggers clean_triggers_demo
      contradictory_triggers_demo mean_def)


lemma unknown_time_maximum:
  assumes "dict_get (action_type r) ''UNKNOWN'' \<notin>
             set [''MOVE'', ''COMMUNICATE'', ''ACQUIRE'', ''ANALYSIS'']"
  shows "time_maximum r = 9999"
  using assms by (simp add: time_maximum_def MAX_TIME_BY_ACTION_def dict_get_def)

lemma triggered_nonempty:
  "triggered_confidences assets r \<noteq> [] \<longleftrightarrow>
     rule1_contradiction r \<or> rule2_cheap_high_risk r \<or> rule3_time_disproportion r \<or>
     rule4_critical_asset assets r"
  by (simp add: triggered_confidences_def)

text \<open>
  C5, as stated, fails: a record of the unknown action type \<open>TELEPORT\<close> with an execution
  time of \<open>10000.0\<close> seconds, and nothing else suspicious, is vetoed by the third rule alone.
\<close>

theorem C5_unknown_type_vetoed:
  "dict_get (action_type teleport_slow) ''UNKNOWN'' \<notin>
     set [''MOVE'', ''COMMUNICATE'', ''ACQUIRE'', ''ANALYSIS''] \<and>
   \<not> rule1_contradiction teleport_slow \<and> \<not> rule2_cheap_high_risk teleport_slow \<and>
   \<not> rule4_critical_asset CRITICAL_ASSETS teleport_slow \<and>
   veto_metadata (fmt_fixed 1) teleport_slow =
     \<lparr>veto = True,
      reason = ''Veto 3: Exec time 10000.0s exceeds invariant for TELEPORT (max 9999.0s).'',
      confidence = 0.85\<rparr>"
  by (simp add: veto_metadata_def rule_defs teleport_slow_def clean_metadata_def dict_get_def
      lower_def lower_char_def is_critical_target_def CRITICAL_ASSETS_def
      MAX_TIME_BY_ACTION_def Let_def py_round_def round_half_even_def fmt_fixed_def)

text \<open>
  C5 (amended): for every record whose action type is none of \<open>MOVE\<close>, \<open>COMMUNICATE\<close>,
  \<open>ACQUIRE\<close>, \<open>ANALYSIS\<close> (an absent type counts as \<open>UNKNOWN\<close>), the third rule takes
  \<open>9999.0\<close> seconds as the time maximum: it triggers exactly when the execution time is
  strictly above \<open>9999.0\<close>, so the record is vetoed exactly when that holds or one of the
  other three rules triggers. Both copies of \<open>veto_metadata\<close> behave so.
\<close>

theorem C5_unknown_type_time_maximum:
  assumes "dict_get (action_type r) ''UNKNOWN'' \<notin>
             set [''MOVE'', ''COMMUNICATE'', ''ACQUIRE'', ''ANALYSIS'']"
  shows "time_maximum r = 9999 \<and>
         (rule3_time_disproportion r \<longleftrightarrow> 9999 < dict_get (execution_time_seconds r) 0) \<and>
         (veto (veto_metadata fs r) \<longleftrightarrow>
            rule1_contradiction r \<or> rule2_cheap_high_risk r \<or>
            9999 < dict_get (execution_time_seconds r) 0 \<or>
            rule4_critical_asset CRITICAL_ASSETS r) \<and>
         (veto (veto_metadata_demo fs r) \<longleftrightarrow>
            rule1_contradiction r \<or> rule2_cheap_high_risk r \<or>
            9999 < dict_get (execution_time_seconds r) 0 \<or>
            rule4_critical_asset CRITICAL_ASSETS_demo r)"
proof -
  have t: "time_maximum r = 9999" using assms by (rule unknown_time_maximum)
  then have r3: "rule3_time_disproportion r \<longleftrightarrow> 9999 < dict_get (execution_time_seconds r) 0"
    by (simp add: rule3_time_disproportion_def)
  show ?thesis
    by (simp add: t r3 [symmetric] veto_metadata_veto veto_metadata_demo_veto triggered_nonempty)
qed

theorem C5_unknown_type_time_maximum_witness:
  "dict_get (action_type teleport_quick) ''UNKNOWN'' \<notin>
     set [''MOVE'', ''COMMUNICATE'', ''ACQUIRE'', ''ANALYSIS''] \<and>
   time_maximum teleport_quick = 9999 \<and>
   \<not> rule3_time_disproportion teleport_quick \<and>
   \<not> veto (veto_metadata (fmt_fixed 1) teleport_quick) \<and>
   \<not> veto (veto_metadata_demo (fmt_fixed 1) teleport_quick)"
proof -
  have h: "dict_get (action_type teleport_quick) ''UNKNOWN'' \<notin>
             set [''MOVE'', ''COMMUNICATE'', ''ACQUIRE'', ''ANALYSIS'']"
    by (simp add: teleport_quick_def clean_metadata_def dict_get_def)
  have o: "\<not> rule1_contradiction teleport_quick" "\<not> rule2_cheap_high_risk teleport_quick"
    "\<not> rule4_critical_asset CRITICAL_ASSETS teleport_quick"
    "\<not> rule4_critical_asset CRITICAL_ASSETS_demo teleport_quick"
    "dict_get (execution_time_seconds teleport_quick) 0 = 9999"
    by (simp_all add: rule_defs teleport_quick_def clean_metadata_def dict_get_def
        CRITICAL_ASSETS_def CRITICAL_ASSETS_demo_def)
  from C5_unknown_type_time_maximum [OF h, of "fmt_fixed 1"] h o show ?thesis by simp
qed

section \<open>The long-horizon guard\<close>

lemma length_differences: "length (differences sub xs) = length xs - 1"
  by (induction sub xs rule: differences.induct) simp_all

lemma differences_nth:
  "i + 1 < length xs \<Longrightarrow> differences sub xs ! i = sub (xs ! (i + 1)) (xs ! i)"
proof (induction sub xs arbitrary: i rule: differences.induct)
  case (1 sub x y ys)
  then show ?case by (cases i) simp_all
qed simp_all

lemma differences_by_index:
  "map (\<lambda>i. sub (xs ! (i + 1)) (xs ! i)) [0 ..< length xs - 1] = differences sub xs"
proof (rule nth_equalityI)
  show "length (map (\<lambda>i. sub (xs ! (i + 1)) (xs ! i)) [0 ..< length xs - 1]) =
        length (differences sub xs)"
    by (simp add: length_differences)
next
  fix i
  assume "i < length (map (\<lambda>i. sub (xs ! (i + 1)) (xs ! i)) [0 ..< length xs - 1])"
  then have i: "i + 1 < length xs" by simp
  then have "differences sub xs ! i = sub (xs ! (i + 1)) (xs ! i)"
    by (rule differences_nth)
  moreover from i have "i < length xs - 1" by simp
  ultimately
  show "map (\<lambda>i. sub (xs ! (i + 1)) (xs ! i)) [0 ..< length xs - 1] ! i =
        differences sub xs ! i"
    by simp
qed

lemma differences_by_index_Suc:
  "map (\<lambda>i. sub (xs ! Suc i) (xs ! i)) [0 ..< length xs - Suc 0] = differences sub xs"
  using differences_by_index [of sub xs] by simp

lemma rmdm_check_short:
  assumes "length risks < 3"
  shows "rmdm_check fmt3 float_sub risks gamma1 gamma2 =
           Inr \<lparr>veto = False, reason = ''RMDM: trajectory too short.'',
                max_d1 = 0, max_d2 = 0\<rparr>"
  using assms by (simp add: rmdm_check_def)

lemma rmdm_check_long:
  assumes "3 \<le> length risks"
  shows "\<exists>res. rmdm_check fmt3 float_sub risks gamma1 gamma2 = Inr res \<and>
           (veto res \<longleftrightarrow>
              gamma1 < Max (set (differences float_sub risks)) \<or>
              gamma2 < Max (set (differences float_sub (differences float_sub risks)))) \<and>
           reason res \<noteq> [] \<and>
           max_d1 res = py_round (Max (set (differences float_sub risks))) 4 \<and>
           max_d2 res =
             py_round (Max (set (differences float_sub (differences float_sub risks)))) 4"
proof -
  let ?d1 = "differences float_sub risks"
  let ?d2 = "differences float_sub ?d1"
  have d1: "?d1 \<noteq> []" and d2: "?d2 \<noteq> []"
    using assms length_differences [of float_sub risks] length_differences [of float_sub ?d1]
    by auto
  have m1: "py_max ?d1 = Inr (Max (set ?d1))"
    using d1 by (rule py_max_Max)
  have m2: "py_max ?d2 = Inr (Max (set ?d2))"
    using d2 by (rule py_max_Max)
  show ?thesis
    using assms d1 d2 m1 m2
    by (simp add: rmdm_check_def Let_def differences_by_index_Suc join_Cons_nonempty)
qed

lemma hrai_check_veto:
  "veto (hrai_check fmt3 float_sum risks theta) \<longleftrightarrow>
     risks \<noteq> [] \<and> theta < py_sum float_sum risks"
  by (simp add: hrai_check_def Let_def)

lemma hrai_check_reason: "reason (hrai_check fmt3 float_sum risks theta) \<noteq> []"
  by (simp add: hrai_check_def Let_def)


lemma rmdm_check_total:
  "\<exists>res. rmdm_check fmt3 float_sub risks gamma1 gamma2 = Inr res \<and> reason res \<noteq> []"
proof (cases "length risks < 3")
  case True
  then show ?thesis by (simp add: rmdm_check_short)
next
  case False
  then have "3 \<le> length risks" by simp
  from rmdm_check_long [OF this, of fmt3 float_sub gamma1 gamma2] show ?thesis by blast
qed

lemma long_horizon_guard_char:
  assumes "rmdm_check fmt3 float_sub risks gamma1 gamma2 = Inr r"
  shows "\<exists>g. long_horizon_guard fmt3 float_sub float_sum risks gamma1 gamma2 theta = Inr g \<and>
           rmdm g = r \<and> hrai g = hrai_check fmt3 float_sum risks theta \<and>
           (veto g \<longleftrightarrow> veto r \<or> veto (hrai_check fmt3 float_sum risks theta)) \<and>
           reason g \<noteq> []"
  using assms by (simp add: long_horizon_guard_def Let_def join_Cons_nonempty)




text \<open>
  C8, as stated, fails for the entry into safe mode: \<open>enter_safe_mode\<close> stores the reason
  it is given, and given the empty string it stores the empty string.
\<close>

theorem C8_empty_reason_stored:
  "active (snd (enter_safe_mode initial_state '''')) \<and>
   SafeModeState.reason (snd (enter_safe_mode initial_state '''')) = ''''"
  by (simp add: enter_safe_mode_def initial_state_def)

text \<open>
  C8 (amended): whenever the metadata veto (either copy), the gradient monitor, the mass
  monitor or the combined long-horizon guard returns \<open>veto = True\<close>, its reason is a
  non-empty string; and after every call of \<open>enter_safe_mode\<close> the state is active and its
  reason is exactly the string the caller gave, hence non-empty whenever the caller's
  string is.
\<close>

theorem C8_reasons_nonempty:
  "(veto (veto_metadata fs m) \<longrightarrow> reason (veto_metadata fs m) \<noteq> []) \<and>
   (veto (veto_metadata_demo fs m) \<longrightarrow> reason (veto_metadata_demo fs m) \<noteq> []) \<and>
   (\<forall>r. rmdm_check fmt3 float_sub risks gamma1 gamma2 = Inr r \<and> veto r \<longrightarrow> reason r \<noteq> []) \<and>
   (veto (hrai_check fmt3 float_sum risks theta) \<longrightarrow>
      reason (hrai_check fmt3 float_sum risks theta) \<noteq> []) \<and>
   (\<forall>g. long_horizon_guard fmt3 float_sub float_sum risks gamma1 gamma2 theta = Inr g \<and> veto g
        \<longrightarrow> reason g \<noteq> []) \<and>
   active (snd (enter_safe_mode s why)) \<and>
   SafeModeState.reason (snd (enter_safe_mode s why)) = why \<and>
   (why \<noteq> [] \<longrightarrow> SafeModeState.reason (snd (enter_safe_mode s why)) \<noteq> [])"
proof -
  have rm: "\<forall>r. rmdm_check fmt3 float_sub risks gamma1 gamma2 = Inr r \<and> veto r
                 \<longrightarrow> reason r \<noteq> []"
    using rmdm_check_total [of fmt3 float_sub risks gamma1 gamma2] by auto
  have lg: "\<forall>g. long_horizon_guard fmt3 float_sub float_sum risks gamma1 gamma2 theta = Inr g
                 \<and> veto g \<longrightarrow> reason g \<noteq> []"
  proof -
    obtain r where r: "rmdm_check fmt3 float_sub risks gamma1 gamma2 = Inr r"
      using rmdm_check_total [of fmt3 float_sub risks gamma1 gamma2] by blast
    from long_horizon_guard_char [OF r, of float_sum theta] show ?thesis by auto
  qed
  have sm: "active (snd (enter_safe_mode s why)) \<and>
            SafeModeState.reason (snd (enter_safe_mode s why)) = why"
    by (simp add: enter_safe_mode_def)
  from rm lg sm show ?thesis
    by (simp add: veto_metadata_reason veto_metadata_demo_reason hrai_check_reason)
qed

theorem C8_reasons_nonempty_witness:
  "veto (veto_metadata (fmt_fixed 1) contradictory_fields) \<and>
   reason (veto_metadata (fmt_fixed 1) contradictory_fields) \<noteq> [] \<and>
   veto (veto_metadata_demo (fmt_fixed 1) contradictory_fields) \<and>
   reason (veto_metadata_demo (fmt_fixed 1) contradictory_fields) \<noteq> [] \<and>
   veto (hrai_check (fmt_fixed 3) sum_list late_spike 0.5) \<and>
   reason (hrai_check (fmt_fixed 3) sum_list late_spike 0.5) \<noteq> [] \<and>
   (\<exists>r. rmdm_check (fmt_fixed 3) (-) late_spike 0.10 0.05 = Inr r \<and> veto r \<and>
        reason r \<noteq> []) \<and>
   (\<exists>g. long_horizon_guard (fmt_fixed 3) (-) sum_list late_spike 0.10 0.05 0.5 = Inr g \<and>
        veto g \<and> reason g \<noteq> []) \<and>
   ''CPM disagreement'' \<noteq> [] \<and>
   SafeModeState.reason (snd (enter_safe_mode initial_state ''CPM disagreement'')) \<noteq> []"
proof -
  have len: "3 \<le> length late_spike" by (simp add: late_spike_def)
  have d: "Max (set (differences (-) late_spike)) = 0.46875" by (simp add: late_spike_def)
  obtain r where r: "rmdm_check (fmt_fixed 3) (-) late_spike 0.10 0.05 = Inr r"
    and vr: "veto r"
    using rmdm_check_long [OF len, of "fmt_fixed 3" "(-)" "0.10" "0.05"] d by auto
  obtain g where g: "long_horizon_guard (fmt_fixed 3) (-) sum_list late_spike 0.10 0.05 0.5 = Inr g"
    and vg: "veto g"
    using long_horizon_guard_char [OF r, of sum_list "0.5"] vr by auto
  have vm: "veto (veto_metadata (fmt_fixed 1) contradictory_fields)"
    "veto (veto_metadata_demo (fmt_fixed 1) contradictory_fields)"
    by (simp_all add: veto_metadata_veto veto_metadata_demo_veto contradictory_triggers
        contradictory_triggers_demo)
  have vh: "veto (hrai_check (fmt_fixed 3) sum_list late_spike 0.5)"
    by (simp add: hrai_check_veto py_sum_def late_spike_def)
  from C8_reasons_nonempty [of "fmt_fixed 1" contradictory_fields "fmt_fixed 3" "(-)" late_spike
      "0.10" "0.05" sum_list "0.5" initial_state "''CPM disagreement''"] r vr g vg vm vh
  show ?thesis by auto
qed

end
